theory Spec2Isabelle
  imports Complex_Main "HOL-Library.AList"
begin

section \<open>JavaScript values as the predicates see them\<close>

text \<open>
  \<^verbatim>\<open>lib/examine-package.js\<close> hands the result of \<^verbatim>\<open>JSON.parse\<close> to fourteen
  predicates. A parsed value is null, a boolean, a number, a string, an array or an object;
  \<^verbatim>\<open>undefined\<close> is what reading a missing property gives and what a function gives that
  ends without \<^verbatim>\<open>return\<close>. An object is the list of its own properties; a property
  read takes the first entry with the key (the parser leaves one entry per key).
  Of a number the predicates observe only whether it is zero, so it is kept as a rational.
  Strings are byte lists; the needles searched for are ASCII, so a search over UTF-8 bytes
  and one over UTF-16 units find the same occurrences.
\<close>

datatype jsval =
    JUndefined
  | JNull
  | JBool bool
  | JNum rat
  | JStr string
  | JArr "jsval list"
  | JObj "(string \<times> jsval) list"

datatype error = TypeError | SyntaxError | Unmodelled

type_synonym 'a result = "error + 'a"

text \<open>Truthiness: \<^verbatim>\<open>undefined\<close>, \<^verbatim>\<open>null\<close>, \<^verbatim>\<open>false\<close>, \<^verbatim>\<open>0\<close> and \<^verbatim>\<open>""\<close>
  are falsy, everything else (also \<^verbatim>\<open>[]\<close> and \<^verbatim>\<open>{}\<close>) is truthy.\<close>

fun truthy :: "jsval \<Rightarrow> bool" where
  "truthy JUndefined = False"
| "truthy JNull = False"
| "truthy (JBool b) = b"
| "truthy (JNum q) = (q \<noteq> 0)"
| "truthy (JStr s) = (s \<noteq> [])"
| "truthy (JArr xs) = True"
| "truthy (JObj kvs) = True"

text \<open>
  The property read \<^verbatim>\<open>v[k]\<close> (and \<^verbatim>\<open>v.k\<close>) for the keys the predicates use:
  \<^verbatim>\<open>devDependencies\<close>, \<^verbatim>\<open>scripts\<close>, package names and script names, none of which
  is a member of a built-in prototype. Reading from \<^verbatim>\<open>undefined\<close> or \<^verbatim>\<open>null\<close>
  throws a TypeError; a primitive or an array has no such property.
\<close>

fun get :: "jsval \<Rightarrow> string \<Rightarrow> jsval result" where
  "get JUndefined k = Inl TypeError"
| "get JNull k = Inl TypeError"
| "get (JObj kvs) k = (case map_of kvs k of None \<Rightarrow> Inr JUndefined | Some v \<Rightarrow> Inr v)"
| "get v k = Inr JUndefined"

definition and_then :: "'a result \<Rightarrow> ('a \<Rightarrow> 'b result) \<Rightarrow> 'b result" where
  "and_then r f = (case r of Inl e \<Rightarrow> Inl e | Inr x \<Rightarrow> f x)"

text \<open>\<^verbatim>\<open>e[k]\<close> on an expression that may already have thrown.\<close>

definition member :: "jsval result \<Rightarrow> string \<Rightarrow> jsval result" where
  "member e k = and_then e (\<lambda>v. get v k)"

text \<open>\<^verbatim>\<open>a && b\<close>: \<^verbatim>\<open>b\<close> is evaluated only when \<^verbatim>\<open>a\<close> is truthy.\<close>

definition js_and :: "jsval result \<Rightarrow> jsval result \<Rightarrow> jsval result" where
  "js_and a b = and_then a (\<lambda>x. if truthy x then b else Inr x)"

definition js_not :: "jsval result \<Rightarrow> jsval result" where
  "js_not a = and_then a (\<lambda>x. Inr (JBool (\<not> truthy x)))"

text \<open>\<^verbatim>\<open>if (c) { t } f\<close>: the statements \<^verbatim>\<open>f\<close> after the conditional run when
  \<^verbatim>\<open>c\<close> is falsy.\<close>

definition js_if :: "jsval result \<Rightarrow> 'a result \<Rightarrow> 'a result \<Rightarrow> 'a result" where
  "js_if c t f = and_then c (\<lambda>x. if truthy x then t else f)"

abbreviation js_true :: "jsval result" where "js_true \<equiv> Inr (JBool True)"
abbreviation js_false :: "jsval result" where "js_false \<equiv> Inr (JBool False)"
abbreviation js_undefined :: "jsval result" where "js_undefined \<equiv> Inr JUndefined"

subsection \<open>String and array search\<close>

fun startsWith :: "string \<Rightarrow> string \<Rightarrow> bool" where
  "startsWith s [] = True"
| "startsWith [] (n # ns) = False"
| "startsWith (c # cs) (n # ns) = (c = n \<and> startsWith cs ns)"

text \<open>\<^verbatim>\<open>String.prototype.indexOf\<close>: the first position at which the needle occurs,
  counted from \<open>i\<close>, or \<open>-1\<close>.\<close>

fun str_indexOf :: "string \<Rightarrow> string \<Rightarrow> int \<Rightarrow> int" where
  "str_indexOf [] needle i = (if needle = [] then i else - 1)"
| "str_indexOf (c # cs) needle i =
     (if startsWith (c # cs) needle then i else str_indexOf cs needle (i + 1))"

text \<open>\<^verbatim>\<open>Array.prototype.indexOf\<close> compares the elements with \<^verbatim>\<open>===\<close>; the element
  sought is a string, which is equal only to the same string.\<close>

fun arr_indexOf :: "jsval list \<Rightarrow> string \<Rightarrow> int \<Rightarrow> int" where
  "arr_indexOf [] needle i = - 1"
| "arr_indexOf (x # xs) needle i =
     (if x = JStr needle then i else arr_indexOf xs needle (i + 1))"

text \<open>
  The method call \<^verbatim>\<open>v.indexOf(needle)\<close>: strings and arrays have the method; reading
  it from \<^verbatim>\<open>undefined\<close> or \<^verbatim>\<open>null\<close> throws, and on a boolean, a number or a parsed
  object \<^verbatim>\<open>v.indexOf\<close> is not a function (an own property of that name holds parsed
  data), so the call throws as well.
\<close>

fun js_indexOf :: "jsval \<Rightarrow> string \<Rightarrow> int result" where
  "js_indexOf (JStr s) needle = Inr (str_indexOf s needle 0)"
| "js_indexOf (JArr xs) needle = Inr (arr_indexOf xs needle 0)"
| "js_indexOf v needle = Inl TypeError"

text \<open>\<^verbatim>\<open>v.includes(needle)\<close>, with the same receivers.\<close>

fun str_includes :: "string \<Rightarrow> string \<Rightarrow> bool" where
  "str_includes [] needle = (needle = [])"
| "str_includes (c # cs) needle = (startsWith (c # cs) needle \<or> str_includes cs needle)"

fun js_includes :: "jsval \<Rightarrow> string \<Rightarrow> jsval result" where
  "js_includes (JStr s) needle = Inr (JBool (str_includes s needle))"
| "js_includes (JArr xs) needle = Inr (JBool (JStr needle \<in> set xs))"
| "js_includes v needle = Inl TypeError"

subsection \<open>The version comparator\<close>

text \<open>
  \<^verbatim>\<open>semver.satisfies\<close> and \<^verbatim>\<open>semver.ltr\<close> belong to the npm package
  \<^verbatim>\<open>semver\<close>, which is not part of the repository: the predicates take them as
  a parameter. Each receives a version literal and the declared value of a dependency,
  and returns a boolean or throws.
\<close>

record semver =
  satisfies :: "string \<Rightarrow> jsval \<Rightarrow> bool result"
  ltr :: "string \<Rightarrow> jsval \<Rightarrow> bool result"

definition js_bool :: "bool result \<Rightarrow> jsval result" where
  "js_bool r = and_then r (\<lambda>b. Inr (JBool b))"

section \<open>The predicates of the package.json registry\<close>

abbreviation devDependencies :: "jsval \<Rightarrow> jsval result" where
  "devDependencies json \<equiv> get json ''devDependencies''"

abbreviation scripts :: "jsval \<Rightarrow> jsval result" where
  "scripts json \<equiv> get json ''scripts''"

definition notUsingStashGfpEslintConfig :: "jsval \<Rightarrow> jsval result" where
  "notUsingStashGfpEslintConfig json =
     js_if (js_and (devDependencies json)
                   (js_not (member (devDependencies json) ''gfp-eslint-config'')))
       js_true
       js_undefined"

definition missingEslintConfigGfp :: "jsval \<Rightarrow> jsval result" where
  "missingEslintConfigGfp json =
     js_if (js_and (devDependencies json)
                   (member (devDependencies json) ''eslint-config-gfp''))
       js_true
       js_undefined"

definition notUsingStashAngularModuleNoDeps :: "jsval \<Rightarrow> jsval result" where
  "notUsingStashAngularModuleNoDeps json =
     js_if (js_and (devDependencies json)
                   (js_not (member (devDependencies json) ''angular-module-no-deps'')))
       js_true
       (and_then (member (devDependencies json) ''angular-module-no-deps'')
          (\<lambda>v. and_then (js_indexOf v ''stash.mrgreen.zone'')
            (\<lambda>i. if i \<noteq> - 1 then js_false else js_true)))"

definition usingDocumentationJs :: "jsval \<Rightarrow> jsval result" where
  "usingDocumentationJs json =
     js_if (js_and (devDependencies json)
                   (member (devDependencies json) ''documentation''))
       js_true
       js_undefined"

definition hasNpmLintScript :: "jsval \<Rightarrow> jsval result" where
  "hasNpmLintScript json =
     js_if (js_and (scripts json) (member (scripts json) ''lint''))
       js_true
       js_undefined"

definition shouldUsePhantomjsPrebuilt :: "jsval \<Rightarrow> jsval result" where
  "shouldUsePhantomjsPrebuilt json =
     js_if (devDependencies json)
       (js_if (member (devDependencies json) ''phantomjs'')
          js_false
          (js_if (member (devDependencies json) ''phantomjs-prebuilt'')
             js_true
             js_undefined))
       js_undefined"

definition shouldUsePhantomjsLauncher1 :: "semver \<Rightarrow> jsval \<Rightarrow> jsval result" where
  "shouldUsePhantomjsLauncher1 sv json =
     js_if (devDependencies json)
       (js_if (member (devDependencies json) ''karma-phantomjs-launcher'')
          (and_then (member (devDependencies json) ''karma-phantomjs-launcher'')
             (\<lambda>range. js_bool (satisfies sv ''1.0.0'' range)))
          js_undefined)
       js_undefined"

definition shouldUsePrepushHooks :: "jsval \<Rightarrow> jsval result" where
  "shouldUsePrepushHooks json =
     js_if (js_and (devDependencies json) (member (devDependencies json) ''husky''))
       (js_if (js_and (scripts json) (member (scripts json) ''prepush''))
          js_true
          js_undefined)
       js_undefined"

definition shouldUsePublicRequirePolyfill :: "jsval \<Rightarrow> jsval result" where
  "shouldUsePublicRequirePolyfill json =
     js_if (js_and (devDependencies json)
                   (member (devDependencies json) ''require-polyfill''))
       (js_if (and_then (member (devDependencies json) ''require-polyfill'')
                 (\<lambda>v. js_includes v ''ssh://''))
          js_false
          js_true)
       js_true"

text \<open>The four version floors are the same code with another package name and another
  floor version; each is written out below as the source does.\<close>

definition shouldUseEslintConfigGfp300 :: "semver \<Rightarrow> jsval \<Rightarrow> jsval result" where
  "shouldUseEslintConfigGfp300 sv json =
     js_if (devDependencies json)
       (js_if (member (devDependencies json) ''eslint-config-gfp'')
          (and_then (member (devDependencies json) ''eslint-config-gfp'')
             (\<lambda>range. js_bool (ltr sv ''2.9.9'' range)))
          js_undefined)
       js_undefined"

definition shouldRunGfpDoctorPostInstall :: "jsval \<Rightarrow> jsval result" where
  "shouldRunGfpDoctorPostInstall json =
     js_if (js_and (js_and (scripts json) (member (scripts json) ''postinstall''))
                   (and_then (member (scripts json) ''postinstall'')
                      (\<lambda>v. js_includes v ''gfp-doctor'')))
       js_true
       js_undefined"

definition shouldUseKarma170 :: "semver \<Rightarrow> jsval \<Rightarrow> jsval result" where
  "shouldUseKarma170 sv json =
     js_if (devDependencies json)
       (js_if (member (devDependencies json) ''karma'')
          (and_then (member (devDependencies json) ''karma'')
             (\<lambda>range. js_bool (ltr sv ''1.6.9'' range)))
          js_undefined)
       js_undefined"

definition shouldUseKarmaCoverage110 :: "semver \<Rightarrow> jsval \<Rightarrow> jsval result" where
  "shouldUseKarmaCoverage110 sv json =
     js_if (devDependencies json)
       (js_if (member (devDependencies json) ''karma-coverage'')
          (and_then (member (devDependencies json) ''karma-coverage'')
             (\<lambda>range. js_bool (ltr sv ''1.0.9'' range)))
          js_undefined)
       js_undefined"

definition shouldUseKarmaJasmine110 :: "semver \<Rightarrow> jsval \<Rightarrow> jsval result" where
  "shouldUseKarmaJasmine110 sv json =
     js_if (devDependencies json)
       (js_if (member (devDependencies json) ''karma-jasmine'')
          (and_then (member (devDependencies json) ''karma-jasmine'')
             (\<lambda>range. js_bool (ltr sv ''1.0.9'' range)))
          js_undefined)
       js_undefined"

section \<open>The registry and the runner\<close>

text \<open>
  A rule pairs a description and a remediation message with its predicate; \<open>passed\<close>
  is the property the runner adds (\<open>None\<close>: the rule object has no such property).
  The rule set as declared has no \<open>skipped\<close> property, which reads as falsy: \<open>False\<close>.
\<close>

record rule =
  desc :: string
  errorMsg :: string
  fn :: "jsval \<Rightarrow> jsval result"
  passed :: "jsval option"

record ruleset =
  name :: string
  rules :: "rule list"
  skipped :: bool

definition dq :: string where "dq = [CHR 0x22]"
definition sq :: string where "sq = [CHR 0x27]"
definition nl :: string where "nl = [CHR 0x0A]"

definition mk_rule :: "string \<Rightarrow> string \<Rightarrow> (jsval \<Rightarrow> jsval result) \<Rightarrow> rule" where
  "mk_rule d m f = \<lparr>desc = d, errorMsg = m, fn = f, passed = None\<rparr>"

definition rulesConf :: "semver \<Rightarrow> ruleset" where
  "rulesConf sv = \<lparr>name = ''package.json'', rules = [
     mk_rule ''using public npm version of gfp eslint config''
       (''remove '' @ dq @ ''gfp-eslint-config'' @ dq @ '' from package.json and run '' @ dq
          @ ''npm install --save-dev eslint eslint-config-gfp'' @ dq)
       notUsingStashGfpEslintConfig,
     mk_rule ''using eslint-config-gfp''
       (''run '' @ dq @ ''npm install --save-dev eslint-config-gfp'' @ dq)
       missingEslintConfigGfp,
     mk_rule ''using public npm version of angular-module-no-deps''
       (''remove '' @ dq @ ''angular-module-no-deps'' @ dq @ '' from package.json and run ''
          @ dq @ ''npm install --save-dev angular-module-no-deps'' @ dq)
       notUsingStashAngularModuleNoDeps,
     mk_rule ''using documentationjs''
       (''should be using documentationjs to generate JSDoc to README: '' @ dq
          @ ''npm install --save-dev documentation'' @ dq @ '' '' @ nl
          @ ''then add scripts: '' @ nl
          @ dq @ ''docs'' @ dq @ '': '' @ dq @ ''npm run docs:md'' @ dq @ '','' @ nl
          @ dq @ ''docs:md'' @ dq @ '': '' @ dq
          @ ''documentation readme <source files>.js --section '' @ sq @ ''API'' @ sq @ dq)
       usingDocumentationJs,
     mk_rule ''has npm script lint''
       (''should have a npm script lint'' @ nl
          @ ''then add script: '' @ nl
          @ dq @ ''lint'' @ dq @ '': '' @ dq @ ''eslint *.js'' @ dq)
       hasNpmLintScript,
     mk_rule ''should be using phantomjs-prebuilt''
       (''remove phantomjs from package.json, then run '' @ nl
          @ ''npm install --save-dev phantomjs-prebuilt'')
       shouldUsePhantomjsPrebuilt,
     mk_rule (''should use '' @ dq @ ''karma-phantomjs-launcher'' @ dq @ '' 1 and up'')
       (''set '' @ dq @ ''karma-phantomjs-launcher'' @ dq @ '' to use '' @ dq @ ''^1.0.0'' @ dq)
       (shouldUsePhantomjsLauncher1 sv),
     mk_rule ''should use prepush hooks''
       (''run:'' @ nl
          @ ''npm install --save-dev husky'' @ nl
          @ ''then add the following to npm scripts:'' @ nl
          @ dq @ ''prepush'' @ dq @ '': '' @ dq
          @ ''npm run lint && karma start --single-run'' @ dq)
       shouldUsePrepushHooks,
     mk_rule ''should use public require-polyfill''
       (''remove require-polyfill from package.json, then run '' @ nl
          @ ''npm install --save-dev require-polyfill'' @ nl)
       shouldUsePublicRequirePolyfill,
     mk_rule ''should use eslint-config-gfp 3.0.0 and up''
       (''set eslint-config-gfp to use version '' @ dq @ ''^3.0.0'' @ dq @ '' in package.json'')
       (shouldUseEslintConfigGfp300 sv),
     mk_rule ''should run gfp-doctor after install''
       (''add the following to npm scripts:'' @ nl
          @ dq @ ''postinstall'' @ dq @ '': '' @ dq @ ''gfp-doctor'' @ dq)
       shouldRunGfpDoctorPostInstall,
     mk_rule (''should use '' @ dq @ ''karma'' @ dq @ '' 1.7.0 and up'')
       (''set '' @ dq @ ''karma'' @ dq @ '' to use '' @ dq @ ''^1.7.0'' @ dq)
       (shouldUseKarma170 sv),
     mk_rule (''should use '' @ dq @ ''karma-coverage'' @ dq @ '' 1.1.0 and up'')
       (''set '' @ dq @ ''karma-coverage'' @ dq @ '' to use '' @ dq @ ''^1.1.0'' @ dq)
       (shouldUseKarmaCoverage110 sv),
     mk_rule (''should use '' @ dq @ ''karma-jasmine'' @ dq @ '' 1.1.0 and up'')
       (''set '' @ dq @ ''karma-coverage'' @ dq @ '' to use '' @ dq @ ''^1.1.0'' @ dq)
       (shouldUseKarmaJasmine110 sv)
   ], skipped = False\<rparr>"

text \<open>
  \<^verbatim>\<open>rulesConf\<close> is one object, created when the module is loaded and shared by every
  call of the exported function. The store maps addresses to the objects they hold; the
  module's object lives at \<open>rulesConf_addr\<close>, and a report is the address of an object.
\<close>

type_synonym addr = nat
type_synonym store = "addr \<Rightarrow> ruleset"

definition rulesConf_addr :: addr where
  "rulesConf_addr = 0"

definition module_store :: "semver \<Rightarrow> store" where
  "module_store sv =
     (\<lambda>a. \<lparr>name = [], rules = [], skipped = False\<rparr>)(rulesConf_addr := rulesConf sv)"

text \<open>
  Modelled from the spec: \<^verbatim>\<open>addSkipped\<close> of \<^verbatim>\<open>lib/rules-util.js\<close>, which is not
  among the sources. The spec: "If the document is absent: mark the RuleSet as fully skipped;
  no predicate is invoked; return immediately", the output being "the same RuleSet", with
  "the whole set flagged skipped", and "if \<open>skipped\<close> is true, no rule in \<open>rules\<close> has a
  meaningful outcome (all are forced to not-applicable/absent)". The third component lists
  the descriptions of the rules whose predicate was invoked, in order: none here.
\<close>

definition addSkipped :: "addr \<Rightarrow> store \<Rightarrow> addr \<times> store \<times> string list" where
  "addSkipped a st =
     (a,
      st(a := (st a)\<lparr>rules := map (\<lambda>r. r\<lparr>passed := None\<rparr>) (rules (st a)), skipped := True\<rparr>),
      [])"

text \<open>
  Modelled from the spec: \<^verbatim>\<open>processRules\<close> of \<^verbatim>\<open>lib/rules-util.js\<close>, which is not
  among the sources. The spec: "iterate the rules in declaration order; for each, invoke its
  predicate with (document, options); store the raw result as that rule's outcome; continue
  even if a predicate's outcome is indeterminate". No predicate of the registry reads the
  options, so they are left out. A predicate that throws ends the iteration, the exception
  leaving the runner. The second component lists the descriptions of the rules whose
  predicate was invoked, in order.
\<close>

fun processRules_loop :: "rule list \<Rightarrow> jsval \<Rightarrow> rule list result \<times> string list" where
  "processRules_loop [] json = (Inr [], [])"
| "processRules_loop (r # rs) json =
     (case fn r json of
        Inl e \<Rightarrow> (Inl e, [desc r])
      | Inr v \<Rightarrow>
          (case processRules_loop rs json of
             (Inl e, calls) \<Rightarrow> (Inl e, desc r # calls)
           | (Inr rs', calls) \<Rightarrow> (Inr (r\<lparr>passed := Some v\<rparr> # rs'), desc r # calls)))"

definition processRules :: "ruleset \<Rightarrow> jsval \<Rightarrow> rule list result \<times> string list" where
  "processRules conf json = processRules_loop (rules conf) json"

text \<open>
  What the loader and the parser leave of the manifest: no file at the path
  (\<^verbatim>\<open>fs.existsSync\<close> is false), a file that \<^verbatim>\<open>JSON.parse\<close> rejects with a
  SyntaxError, or the parsed value.
\<close>

datatype manifest = Missing | Malformed | Parsed jsval

text \<open>
  The exported function. It returns the address of the report, the store it leaves and the
  predicates invoked. On a parsed manifest it assigns the processed rules to the \<open>rules\<close>
  property of the module's object and returns that object.
\<close>

definition examine :: "manifest \<Rightarrow> store \<Rightarrow> addr result \<times> store \<times> string list" where
  "examine m st =
     (case m of
        Missing \<Rightarrow>
          (case addSkipped rulesConf_addr st of (a, st', calls) \<Rightarrow> (Inr a, st', calls))
      | Malformed \<Rightarrow> (Inl SyntaxError, st, [])
      | Parsed json \<Rightarrow>
          (case processRules (st rulesConf_addr) json of
             (Inl e, calls) \<Rightarrow> (Inl e, st, calls)
           | (Inr rs, calls) \<Rightarrow>
               (Inr rulesConf_addr,
                st(rulesConf_addr := (st rulesConf_addr)\<lparr>rules := rs\<rparr>),
                calls)))"

section \<open>A version comparator for single caret, tilde and plain ranges\<close>

text \<open>
  Modelled from the spec: the version comparator is the npm package \<^verbatim>\<open>semver\<close>, which
  is not among the sources. The spec: "\<open>satisfies(version, range)\<close>: does \<open>version\<close> fall
  within \<open>range\<close>? \<open>lessThanRange(version, range)\<close>: is \<open>version\<close> strictly below every
  version matched by \<open>range\<close>? Both use conventional three-part version precedence with
  optional caret/tilde-style range prefixes". The model covers a range that is one
  three-part version with an optional caret or tilde; any other range is reported as
  \<open>Unmodelled\<close>.
\<close>

type_synonym version = "nat \<times> nat \<times> nat"

datatype range = Caret version | Tilde version | Exact version

definition digit_val :: "char \<Rightarrow> nat option" where
  "digit_val =
     map_of [(CHR ''0'', 0), (CHR ''1'', 1), (CHR ''2'', 2), (CHR ''3'', 3), (CHR ''4'', 4),
             (CHR ''5'', 5), (CHR ''6'', 6), (CHR ''7'', 7), (CHR ''8'', 8), (CHR ''9'', 9)]"

fun parse_digits :: "string \<Rightarrow> nat \<Rightarrow> nat option" where
  "parse_digits [] acc = Some acc"
| "parse_digits (c # cs) acc =
     (case digit_val c of None \<Rightarrow> None | Some d \<Rightarrow> parse_digits cs (10 * acc + d))"

definition parse_nat :: "string \<Rightarrow> nat option" where
  "parse_nat s = (if s = [] then None else parse_digits s 0)"

fun split_dots :: "string \<Rightarrow> string \<Rightarrow> string list" where
  "split_dots [] cur = [rev cur]"
| "split_dots (c # cs) cur =
     (if c = CHR ''.'' then rev cur # split_dots cs [] else split_dots cs (c # cur))"

definition parse_version :: "string \<Rightarrow> version option" where
  "parse_version s =
     (case map parse_nat (split_dots s []) of
        [Some a, Some b, Some c] \<Rightarrow> Some (a, b, c)
      | _ \<Rightarrow> None)"

definition parse_range :: "string \<Rightarrow> range option" where
  "parse_range s =
     (case s of
        [] \<Rightarrow> None
      | c # cs \<Rightarrow>
          (if c = CHR ''^'' then map_option Caret (parse_version cs)
           else if c = CHR ''~'' then map_option Tilde (parse_version cs)
           else map_option Exact (parse_version s)))"

fun ver_less :: "version \<Rightarrow> version \<Rightarrow> bool" where
  "ver_less (a, b, c) (a', b', c') =
     (a < a' \<or> (a = a' \<and> (b < b' \<or> (b = b' \<and> c < c'))))"

text \<open>The least version a range matches, and the first version above it that it does not.\<close>

fun range_floor :: "range \<Rightarrow> version" where
  "range_floor (Caret v) = v"
| "range_floor (Tilde v) = v"
| "range_floor (Exact v) = v"

fun range_ceiling :: "range \<Rightarrow> version" where
  "range_ceiling (Caret (a, b, c)) =
     (if a \<noteq> 0 then (a + 1, 0, 0) else if b \<noteq> 0 then (0, b + 1, 0) else (0, 0, c + 1))"
| "range_ceiling (Tilde (a, b, c)) = (a, b + 1, 0)"
| "range_ceiling (Exact (a, b, c)) = (a, b, c + 1)"

definition matches :: "range \<Rightarrow> version \<Rightarrow> bool" where
  "matches r v = (\<not> ver_less v (range_floor r) \<and> ver_less v (range_ceiling r))"

definition compare_with ::
  "(version \<Rightarrow> range \<Rightarrow> bool) \<Rightarrow> string \<Rightarrow> jsval \<Rightarrow> bool result" where
  "compare_with test ver rng =
     (case rng of
        JStr s \<Rightarrow>
          (case (parse_version ver, parse_range s) of
             (Some v, Some r) \<Rightarrow> Inr (test v r)
           | _ \<Rightarrow> Inl Unmodelled)
      | _ \<Rightarrow> Inl Unmodelled)"

definition semver_spec :: semver where
  "semver_spec =
     \<lparr>satisfies = compare_with (\<lambda>v r. matches r v),
      ltr = compare_with (\<lambda>v r. ver_less v (range_floor r))\<rparr>"

section \<open>Vocabulary of the properties\<close>

text \<open>
  The manifest is a key-value structure, so the properties speak of documents
  \<open>JObj kvs\<close>. An entry of a section (\<^verbatim>\<open>devDependencies\<close>, \<^verbatim>\<open>scripts\<close>) is present when
  the section is a mapping that has the key; it is absent when the document has no such
  section, when the section is not a mapping, or when the mapping lacks the key.
\<close>

definition entry :: "(string \<times> jsval) list \<Rightarrow> string \<Rightarrow> string \<Rightarrow> jsval option" where
  "entry kvs sec k = (case map_of kvs sec of Some (JObj m) \<Rightarrow> map_of m k | _ \<Rightarrow> None)"

abbreviation dependency :: "(string \<times> jsval) list \<Rightarrow> string \<Rightarrow> jsval option" where
  "dependency kvs k \<equiv> entry kvs ''devDependencies'' k"

abbreviation script :: "(string \<times> jsval) list \<Rightarrow> string \<Rightarrow> jsval option" where
  "script kvs k \<equiv> entry kvs ''scripts'' k"

text \<open>An entry is declared when it is present with a truthy value.\<close>

definition declared :: "jsval option \<Rightarrow> bool" where
  "declared e = (case e of Some v \<Rightarrow> truthy v | None \<Rightarrow> False)"

text \<open>The document has the section, with a truthy value.\<close>

definition has_section :: "(string \<times> jsval) list \<Rightarrow> string \<Rightarrow> bool" where
  "has_section kvs sec = (case map_of kvs sec of Some v \<Rightarrow> truthy v | None \<Rightarrow> False)"

text \<open>The needle occurs in the string as a substring.\<close>

definition occurs_in :: "string \<Rightarrow> string \<Rightarrow> bool" where
  "occurs_in needle s = (\<exists>p q. s = p @ needle @ q)"

section \<open>Documents of the scenarios\<close>

definition scenario_A :: jsval where
  "scenario_A = JObj [(''devDependencies'', JObj [(''eslint-config-gfp'', JStr ''^3.0.0'')])]"

definition scenario_B :: jsval where
  "scenario_B = JObj [(''devDependencies'', JObj [(''eslint-config-gfp'', JStr ''^2.0.0'')])]"

definition scenario_C :: jsval where
  "scenario_C = JObj [(''devDependencies'', JObj [(''phantomjs'', JStr ''1.0.0'')])]"

definition prebuilt_document :: jsval where
  "prebuilt_document =
     JObj [(''devDependencies'', JObj [(''phantomjs-prebuilt'', JStr ''2.1.16'')])]"

text \<open>The store that a first run, on the document of scenario C, leaves behind.\<close>

definition store_after_C :: store where
  "store_after_C = fst (snd (examine (Parsed scenario_C) (module_store semver_spec)))"

text \<open>A rule without its outcome: what the registry declares of it.\<close>

definition template :: "rule \<Rightarrow> rule" where
  "template r = r\<lparr>passed := None\<rparr>"

section \<open>The comparator model meets its description\<close>

lemma ver_less_floor:
  "(\<forall>w. matches r w \<longrightarrow> ver_less v w) \<longleftrightarrow> ver_less v (range_floor r)"
proof
  assume a: "\<forall>w. matches r w \<longrightarrow> ver_less v w"
  have "matches r (range_floor r)"
    by (cases r; cases "range_floor r") (auto simp: matches_def)
  with a show "ver_less v (range_floor r)" by blast
next
  assume b: "ver_less v (range_floor r)"
  show "\<forall>w. matches r w \<longrightarrow> ver_less v w"
  proof (intro allI impI)
    fix w assume "matches r w"
    then have "\<not> ver_less w (range_floor r)" by (simp add: matches_def)
    with b show "ver_less v w"
      by (cases v; cases w; cases "range_floor r") auto
  qed
qed

section \<open>Substring search\<close>

lemma startsWith_iff: "startsWith s n \<longleftrightarrow> (\<exists>q. s = n @ q)"
  by (induction s n rule: startsWith.induct) auto

lemma str_includes_iff: "str_includes s n \<longleftrightarrow> occurs_in n s"
proof (induction s)
  case Nil
  show ?case by (auto simp: occurs_in_def)
next
  case (Cons c cs)
  have "occurs_in n (c # cs) \<longleftrightarrow> (\<exists>q. c # cs = n @ q) \<or> occurs_in n cs"
    unfolding occurs_in_def
  proof
    assume "\<exists>p q. c # cs = p @ n @ q"
    then obtain p q where pq: "c # cs = p @ n @ q" by blast
    show "(\<exists>q. c # cs = n @ q) \<or> (\<exists>p q. cs = p @ n @ q)"
    proof (cases p)
      case Nil
      with pq show ?thesis by auto
    next
      case (Cons a p')
      with pq have "cs = p' @ n @ q" by simp
      then show ?thesis by blast
    qed
  next
    assume "(\<exists>q. c # cs = n @ q) \<or> (\<exists>p q. cs = p @ n @ q)"
    then show "\<exists>p q. c # cs = p @ n @ q"
    proof
      assume "\<exists>q. c # cs = n @ q"
      then obtain q where "c # cs = [] @ n @ q" by auto
      then show ?thesis by blast
    next
      assume "\<exists>p q. cs = p @ n @ q"
      then obtain p q where "c # cs = (c # p) @ n @ q" by auto
      then show ?thesis by blast
    qed
  qed
  with Cons show ?case by (simp add: startsWith_iff)
qed

lemma str_indexOf_found: "0 \<le> i \<Longrightarrow> str_indexOf s n i \<noteq> - 1 \<longleftrightarrow> str_includes s n"
  by (induction s arbitrary: i) auto

section \<open>Guards on object documents\<close>

lemma js_if_section:
  "js_if (get (JObj kvs) sec) t f = (if has_section kvs sec then t else f)"
  by (simp add: js_if_def and_then_def has_section_def split: option.splits)

lemma declared_has_section: "declared (entry kvs sec k) \<Longrightarrow> has_section kvs sec"
  by (auto simp: declared_def entry_def has_section_def split: option.splits jsval.splits)

lemma member_entry_Some:
  "entry kvs sec k = Some v \<Longrightarrow> member (get (JObj kvs) sec) k = Inr v"
  by (auto simp: member_def and_then_def entry_def split: option.splits jsval.splits)

lemma js_if_member:
  "has_section kvs sec \<Longrightarrow>
   js_if (member (get (JObj kvs) sec) k) t f = (if declared (entry kvs sec k) then t else f)"
  by (auto simp: js_if_def member_def and_then_def entry_def declared_def has_section_def
           split: option.splits jsval.splits)

lemma js_if_and:
  "js_if (js_and (get (JObj kvs) sec) (member (get (JObj kvs) sec) k)) t f =
     (if declared (entry kvs sec k) then t else f)"
  by (auto simp: js_if_def js_and_def member_def and_then_def entry_def declared_def
           split: option.splits jsval.splits)

lemma js_if_and_not:
  "js_if (js_and (get (JObj kvs) sec) (js_not (member (get (JObj kvs) sec) k))) t f =
     (if has_section kvs sec \<and> \<not> declared (entry kvs sec k) then t else f)"
  by (auto simp: js_if_def js_and_def js_not_def member_def and_then_def entry_def declared_def
                 has_section_def
           split: option.splits jsval.splits)

lemma guarded_entry:
  "js_if (get (JObj kvs) sec)
     (js_if (member (get (JObj kvs) sec) k) (and_then (member (get (JObj kvs) sec) k) F) f) f =
   (case entry kvs sec k of Some v \<Rightarrow> if truthy v then F v else f | None \<Rightarrow> f)"
  by (auto simp: js_if_def member_def and_then_def entry_def
           split: option.splits jsval.splits)

section \<open>Each predicate on an object document\<close>

lemma notUsingStashGfpEslintConfig_object: "notUsingStashGfpEslintConfig (JObj kvs) =
  (if has_section kvs ''devDependencies'' \<and> \<not> declared (dependency kvs ''gfp-eslint-config'')
   then js_true else js_undefined)"
  unfolding notUsingStashGfpEslintConfig_def by (rule js_if_and_not)

lemma missingEslintConfigGfp_object: "missingEslintConfigGfp (JObj kvs) =
  (if declared (dependency kvs ''eslint-config-gfp'') then js_true else js_undefined)"
  unfolding missingEslintConfigGfp_def by (rule js_if_and)

lemma member_no_section:
  "\<not> has_section kvs sec \<Longrightarrow>
   and_then (member (get (JObj kvs) sec) k) (\<lambda>v. and_then (js_indexOf v needle) F) = Inl TypeError"
proof -
  have "get v k = Inl TypeError \<or> get v k = Inr JUndefined" if "\<not> truthy v" for v
    using that by (cases v) auto
  then show ?thesis if "\<not> has_section kvs sec"
    using that
    by (fastforce simp: member_def and_then_def has_section_def split: option.splits)
qed

lemma notUsingStashAngularModuleNoDeps_object: "notUsingStashAngularModuleNoDeps (JObj kvs) =
  (if \<not> has_section kvs ''devDependencies'' then Inl TypeError
   else case dependency kvs ''angular-module-no-deps'' of
          None \<Rightarrow> js_true
        | Some v \<Rightarrow>
            if truthy v
            then and_then (js_indexOf v ''stash.mrgreen.zone'')
                   (\<lambda>i. if i \<noteq> - 1 then js_false else js_true)
            else js_true)"
proof (cases "has_section kvs ''devDependencies''")
  case False
  then show ?thesis
    unfolding notUsingStashAngularModuleNoDeps_def
    by (simp only: js_if_and_not member_no_section if_False if_True simp_thms)
next
  case True
  show ?thesis
  proof (cases "dependency kvs ''angular-module-no-deps''")
    case None
    with True show ?thesis
      unfolding notUsingStashAngularModuleNoDeps_def
      by (simp add: js_if_and_not declared_def del: get.simps)
  next
    case (Some v)
    with True show ?thesis
      unfolding notUsingStashAngularModuleNoDeps_def js_if_and_not
      by (simp add: declared_def member_entry_Some and_then_def del: get.simps)
  qed
qed

lemma usingDocumentationJs_object: "usingDocumentationJs (JObj kvs) =
  (if declared (dependency kvs ''documentation'') then js_true else js_undefined)"
  unfolding usingDocumentationJs_def by (rule js_if_and)

lemma hasNpmLintScript_object: "hasNpmLintScript (JObj kvs) =
  (if declared (script kvs ''lint'') then js_true else js_undefined)"
  unfolding hasNpmLintScript_def by (rule js_if_and)

lemma shouldUsePhantomjsPrebuilt_object: "shouldUsePhantomjsPrebuilt (JObj kvs) =
  (if declared (dependency kvs ''phantomjs'') then js_false
   else if declared (dependency kvs ''phantomjs-prebuilt'') then js_true
   else js_undefined)"
proof (cases "has_section kvs ''devDependencies''")
  case True
  then show ?thesis
    unfolding shouldUsePhantomjsPrebuilt_def by (simp add: js_if_section js_if_member del: get.simps)
next
  case False
  then have "\<not> declared (dependency kvs k)" for k
    using declared_has_section by blast
  with False show ?thesis
    unfolding shouldUsePhantomjsPrebuilt_def by (simp add: js_if_section del: get.simps)
qed

lemma shouldUsePhantomjsLauncher1_object: "shouldUsePhantomjsLauncher1 sv (JObj kvs) =
  (case dependency kvs ''karma-phantomjs-launcher'' of
     Some v \<Rightarrow> if truthy v then js_bool (satisfies sv ''1.0.0'' v) else js_undefined
   | None \<Rightarrow> js_undefined)"
  unfolding shouldUsePhantomjsLauncher1_def by (rule guarded_entry)

lemma shouldUsePrepushHooks_object: "shouldUsePrepushHooks (JObj kvs) =
  (if declared (dependency kvs ''husky'') \<and> declared (script kvs ''prepush'')
   then js_true else js_undefined)"
  unfolding shouldUsePrepushHooks_def by (simp add: js_if_and del: get.simps)

lemma shouldUsePublicRequirePolyfill_object: "shouldUsePublicRequirePolyfill (JObj kvs) =
  (case dependency kvs ''require-polyfill'' of
     Some v \<Rightarrow> if truthy v then js_if (js_includes v ''ssh://'') js_false js_true else js_true
   | None \<Rightarrow> js_true)"
  unfolding shouldUsePublicRequirePolyfill_def js_if_and
  by (cases "dependency kvs ''require-polyfill''")
     (simp_all add: declared_def member_entry_Some and_then_def del: get.simps)

lemma shouldUseEslintConfigGfp300_object: "shouldUseEslintConfigGfp300 sv (JObj kvs) =
  (case dependency kvs ''eslint-config-gfp'' of
     Some v \<Rightarrow> if truthy v then js_bool (ltr sv ''2.9.9'' v) else js_undefined
   | None \<Rightarrow> js_undefined)"
  unfolding shouldUseEslintConfigGfp300_def by (rule guarded_entry)

lemma shouldRunGfpDoctorPostInstall_object: "shouldRunGfpDoctorPostInstall (JObj kvs) =
  (case script kvs ''postinstall'' of
     Some v \<Rightarrow>
       if truthy v then js_if (js_includes v ''gfp-doctor'') js_true js_undefined
       else js_undefined
   | None \<Rightarrow> js_undefined)"
  unfolding shouldRunGfpDoctorPostInstall_def
  by (auto simp: js_if_def js_and_def member_def and_then_def entry_def
           split: option.splits jsval.splits)

lemma shouldUseKarma170_object: "shouldUseKarma170 sv (JObj kvs) =
  (case dependency kvs ''karma'' of
     Some v \<Rightarrow> if truthy v then js_bool (ltr sv ''1.6.9'' v) else js_undefined
   | None \<Rightarrow> js_undefined)"
  unfolding shouldUseKarma170_def by (rule guarded_entry)

lemma shouldUseKarmaCoverage110_object: "shouldUseKarmaCoverage110 sv (JObj kvs) =
  (case dependency kvs ''karma-coverage'' of
     Some v \<Rightarrow> if truthy v then js_bool (ltr sv ''1.0.9'' v) else js_undefined
   | None \<Rightarrow> js_undefined)"
  unfolding shouldUseKarmaCoverage110_def by (rule guarded_entry)

lemma shouldUseKarmaJasmine110_object: "shouldUseKarmaJasmine110 sv (JObj kvs) =
  (case dependency kvs ''karma-jasmine'' of
     Some v \<Rightarrow> if truthy v then js_bool (ltr sv ''1.0.9'' v) else js_undefined
   | None \<Rightarrow> js_undefined)"
  unfolding shouldUseKarmaJasmine110_def by (rule guarded_entry)

lemmas object_forms =
  notUsingStashGfpEslintConfig_object missingEslintConfigGfp_object
  notUsingStashAngularModuleNoDeps_object usingDocumentationJs_object
  hasNpmLintScript_object shouldUsePhantomjsPrebuilt_object
  shouldUsePhantomjsLauncher1_object shouldUsePrepushHooks_object
  shouldUsePublicRequirePolyfill_object shouldUseEslintConfigGfp300_object
  shouldRunGfpDoctorPostInstall_object shouldUseKarma170_object
  shouldUseKarmaCoverage110_object shouldUseKarmaJasmine110_object

section \<open>The comparator on the scenarios, and two rules of the registry\<close>

lemma ltr_spec_A: "ltr semver_spec ''2.9.9'' (JStr ''^3.0.0'') = Inr True"
  by (simp add: semver_spec_def compare_with_def parse_version_def parse_range_def
        parse_nat_def digit_val_def)

lemma ltr_spec_B: "ltr semver_spec ''2.9.9'' (JStr ''^2.0.0'') = Inr False"
  by (simp add: semver_spec_def compare_with_def parse_version_def parse_range_def
        parse_nat_def digit_val_def)

lemma rule_2: "rules (rulesConf sv) ! 1 =
  mk_rule ''using eslint-config-gfp''
    (''run '' @ dq @ ''npm install --save-dev eslint-config-gfp'' @ dq) missingEslintConfigGfp"
  by (simp add: rulesConf_def)

lemma rule_10: "rules (rulesConf sv) ! 9 =
  mk_rule ''should use eslint-config-gfp 3.0.0 and up''
    (''set eslint-config-gfp to use version '' @ dq @ ''^3.0.0'' @ dq @ '' in package.json'')
    (shouldUseEslintConfigGfp300 sv)"
  by (simp add: rulesConf_def)

section \<open>Updating and deleting an entry\<close>

lemma entry_update:
  "entry (AList.update sec (JObj m) kvs) sec' k =
     (if sec' = sec then map_of m k else entry kvs sec' k)"
  by (simp add: entry_def update_conv')

lemma has_section_update:
  "has_section (AList.update sec (JObj m) kvs) sec' = (sec' = sec \<or> has_section kvs sec')"
  by (simp add: has_section_def update_conv')

lemma declared_falsy:
  "\<not> truthy v \<Longrightarrow>
   declared (map_of (AList.update k v m) k') = declared (map_of (AList.delete k m) k')"
  by (simp add: declared_def update_conv' delete_conv')

lemma falsy_as_absent:
  "\<not> truthy v \<Longrightarrow>
   (case map_of (AList.update k v m) k' of Some w \<Rightarrow> if truthy w then F w else f | None \<Rightarrow> f) =
   (case map_of (AList.delete k m) k' of Some w \<Rightarrow> if truthy w then F w else f | None \<Rightarrow> f)"
  by (simp add: update_conv' delete_conv')

section \<open>The runner keeps what the registry declares\<close>

lemma template_eqD:
  assumes "template r = template r'"
  shows "fn r = fn r'" and "desc r = desc r'"
    and "r\<lparr>passed := p\<rparr> = r'\<lparr>passed := p\<rparr>"
proof -
  have "fn (template r) = fn (template r')" "desc (template r) = desc (template r')"
    "(template r)\<lparr>passed := p\<rparr> = (template r')\<lparr>passed := p\<rparr>"
    using assms by simp_all
  then show "fn r = fn r'" and "desc r = desc r'" and "r\<lparr>passed := p\<rparr> = r'\<lparr>passed := p\<rparr>"
    by (simp_all add: template_def)
qed

lemma processRules_loop_templates:
  "map template rs = map template rs' \<Longrightarrow> processRules_loop rs json = processRules_loop rs' json"
proof (induction rs arbitrary: rs')
  case Nil
  then show ?case by simp
next
  case (Cons r rs)
  then obtain r' rs'' where rs': "rs' = r' # rs''" and t: "template r = template r'"
    and m: "map template rs = map template rs''"
    by (cases rs') auto
  have ih: "processRules_loop rs json = processRules_loop rs'' json"
    by (rule Cons.IH [OF m])
  have f: "fn r' = fn r" and d: "desc r' = desc r"
    and p: "r'\<lparr>passed := Some v\<rparr> = r\<lparr>passed := Some v\<rparr>" for v
    using template_eqD [OF t] by simp_all
  show ?case
    unfolding rs' by (simp add: ih [symmetric] f d p split: sum.splits prod.splits)
qed

lemma processRules_loop_keeps:
  "processRules_loop rs json = (Inr rs', calls) \<Longrightarrow> map template rs' = map template rs"
proof (induction rs arbitrary: rs' calls)
  case Nil
  then show ?case by simp
next
  case (Cons r rs)
  then show ?case
    by (auto simp: template_def split: sum.splits prod.splits)
qed

lemma examine_keeps_templates:
  "map template (rules (fst (snd (examine m st)) rulesConf_addr)) =
   map template (rules (st rulesConf_addr))"
proof (cases m)
  case Missing
  then show ?thesis by (simp add: examine_def addSkipped_def template_def o_def)
next
  case Malformed
  then show ?thesis by (simp add: examine_def)
next
  case (Parsed json)
  then show ?thesis
    by (auto simp: examine_def processRules_def split: sum.splits prod.splits
             dest: processRules_loop_keeps)
qed

lemma examine_keeps_predicates:
  "map (\<lambda>r. fn r json) (rules (fst (snd (examine m st)) rulesConf_addr)) =
   map (\<lambda>r. fn r json) (rules (st rulesConf_addr))"
proof -
  have "map (\<lambda>r. fn r json) (map template (rules (fst (snd (examine m st)) rulesConf_addr))) =
        map (\<lambda>r. fn r json) (map template (rules (st rulesConf_addr)))"
    by (simp only: examine_keeps_templates)
  then show ?thesis
    by (simp add: template_def o_def)
qed

lemma processRules_loop_returns:
  "map (\<lambda>r. fn r json) rs = map Inr vs \<Longrightarrow>
   \<exists>rs'. processRules_loop rs json = (Inr rs', map desc rs) \<and> map passed rs' = map Some vs"
proof (induction rs arbitrary: vs)
  case Nil
  then show ?case by simp
next
  case (Cons r rs)
  then obtain v vs' where vs: "vs = v # vs'" and r: "fn r json = Inr v"
    and rest: "map (\<lambda>r. fn r json) rs = map Inr vs'"
    by (cases vs) auto
  from Cons.IH [OF rest] obtain rs' where
    "processRules_loop rs json = (Inr rs', map desc rs)" "map passed rs' = map Some vs'"
    by blast
  with r show ?case unfolding vs by simp
qed

lemma examine_parsed_returns:
  assumes "map (\<lambda>r. fn r json) (rules (st rulesConf_addr)) = map Inr vs"
  shows "fst (examine (Parsed json) st) = Inr rulesConf_addr"
    and "map passed (rules (fst (snd (examine (Parsed json) st)) rulesConf_addr)) = map Some vs"
proof -
  from processRules_loop_returns [OF assms] obtain rs' where
    l: "processRules_loop (rules (st rulesConf_addr)) json =
          (Inr rs', map desc (rules (st rulesConf_addr)))"
    and p: "map passed rs' = map Some vs"
    by blast
  from l show "fst (examine (Parsed json) st) = Inr rulesConf_addr"
    by (simp add: examine_def processRules_def)
  from l p show
    "map passed (rules (fst (snd (examine (Parsed json) st)) rulesConf_addr)) = map Some vs"
    by (simp add: examine_def processRules_def)
qed

lemma registry_on_scenario_C:
  "map (\<lambda>r. fn r scenario_C) (rules (rulesConf sv)) =
     map Inr [JBool True, JUndefined, JBool True, JUndefined, JUndefined, JBool False,
       JUndefined, JUndefined, JBool True, JUndefined, JUndefined, JUndefined, JUndefined,
       JUndefined]"
  by (simp add: rulesConf_def mk_rule_def scenario_C_def object_forms entry_def declared_def
        has_section_def)

lemma registry_on_prebuilt_document:
  "map (\<lambda>r. fn r prebuilt_document) (rules (rulesConf sv)) =
     map Inr [JBool True, JUndefined, JBool True, JUndefined, JUndefined, JBool True,
       JUndefined, JUndefined, JBool True, JUndefined, JUndefined, JUndefined, JUndefined,
       JUndefined]"
  by (simp add: rulesConf_def mk_rule_def prebuilt_document_def object_forms entry_def
        declared_def has_section_def)

section \<open>The properties\<close>

text \<open>
  C1. The rule "using public npm version of angular-module-no-deps" should pass on every
  document in which the key \<^verbatim>\<open>angular-module-no-deps\<close> is absent from
  \<^verbatim>\<open>devDependencies\<close>, also when the document has no \<^verbatim>\<open>devDependencies\<close> at all.
  On the document \<^verbatim>\<open>{}\<close> the key is absent, and the predicate throws a TypeError: its
  first guard needs \<^verbatim>\<open>json.devDependencies\<close> to be truthy, and the statement after it
  reads \<^verbatim>\<open>json.devDependencies['angular-module-no-deps']\<close> from \<^verbatim>\<open>undefined\<close>.
\<close>

theorem notUsingStashAngularModuleNoDeps_empty_document:
  "dependency [] ''angular-module-no-deps'' = None
   \<and> notUsingStashAngularModuleNoDeps (JObj []) = Inl TypeError"
  by (simp add: entry_def notUsingStashAngularModuleNoDeps_def js_if_def js_and_def js_not_def
        member_def and_then_def)

text \<open>
  C2. No predicate of the registry should throw when an optional field it inspects is
  missing. On the document \<^verbatim>\<open>{}\<close>, which has neither \<^verbatim>\<open>devDependencies\<close> nor
  \<^verbatim>\<open>scripts\<close>, thirteen of the fourteen predicates return (twelve \<^verbatim>\<open>undefined\<close>, one
  \<^verbatim>\<open>true\<close>) and the third, \<^verbatim>\<open>notUsingStashAngularModuleNoDeps\<close>, throws a TypeError,
  whatever the version comparator is.
\<close>

theorem registry_on_empty_document:
  "map (\<lambda>r. fn r (JObj [])) (rules (rulesConf sv)) =
     [js_undefined, js_undefined, Inl TypeError, js_undefined, js_undefined, js_undefined,
      js_undefined, js_undefined, js_true, js_undefined, js_undefined, js_undefined,
      js_undefined, js_undefined]"
  by (simp add: rulesConf_def mk_rule_def
        notUsingStashGfpEslintConfig_object missingEslintConfigGfp_object
        notUsingStashAngularModuleNoDeps_object usingDocumentationJs_object
        hasNpmLintScript_object shouldUsePhantomjsPrebuilt_object
        shouldUsePhantomjsLauncher1_object shouldUsePrepushHooks_object
        shouldUsePublicRequirePolyfill_object shouldUseEslintConfigGfp300_object
        shouldRunGfpDoctorPostInstall_object shouldUseKarma170_object
        shouldUseKarmaCoverage110_object shouldUseKarmaJasmine110_object
        entry_def declared_def has_section_def)

text \<open>
  C3, as stated, fails: \<^verbatim>\<open>notUsingStashGfpEslintConfig\<close> is not among the two exempted
  predicates, yet on \<^verbatim>\<open>{devDependencies: {}}\<close>, where \<^verbatim>\<open>gfp-eslint-config\<close> is
  absent, it returns an explicit pass and not \<^verbatim>\<open>undefined\<close>.
\<close>

theorem notUsingStashGfpEslintConfig_absent_passes:
  "dependency [(''devDependencies'', JObj [])] ''gfp-eslint-config'' = None
   \<and> notUsingStashGfpEslintConfig (JObj [(''devDependencies'', JObj [])]) \<noteq> js_undefined
   \<and> notUsingStashGfpEslintConfig (JObj [(''devDependencies'', JObj [])]) = js_true"
  by (simp add: notUsingStashGfpEslintConfig_object entry_def declared_def has_section_def)

text \<open>
  C3, amended. On a document that lacks the entry a predicate looks at, no predicate
  returns an explicit fail. Eleven predicates return \<^verbatim>\<open>undefined\<close>;
  \<^verbatim>\<open>notUsingStashGfpEslintConfig\<close> returns \<^verbatim>\<open>undefined\<close> when the document has no
  (truthy) \<^verbatim>\<open>devDependencies\<close> and an explicit pass when it has;
  \<^verbatim>\<open>shouldUsePublicRequirePolyfill\<close> returns an explicit pass; and
  \<^verbatim>\<open>notUsingStashAngularModuleNoDeps\<close> returns an explicit pass when the document has
  \<^verbatim>\<open>devDependencies\<close>. For the rule on phantomjs the entries are both package names,
  for the rule on prepush hooks either the \<^verbatim>\<open>husky\<close> dependency or the \<^verbatim>\<open>prepush\<close>
  script.
\<close>

theorem absent_entry_never_fails:
  "(dependency kvs ''gfp-eslint-config'' = None \<longrightarrow>
      notUsingStashGfpEslintConfig (JObj kvs) =
        (if has_section kvs ''devDependencies'' then js_true else js_undefined))
   \<and> (dependency kvs ''eslint-config-gfp'' = None \<longrightarrow>
      missingEslintConfigGfp (JObj kvs) = js_undefined)
   \<and> (dependency kvs ''angular-module-no-deps'' = None \<and> has_section kvs ''devDependencies'' \<longrightarrow>
      notUsingStashAngularModuleNoDeps (JObj kvs) = js_true)
   \<and> (dependency kvs ''documentation'' = None \<longrightarrow>
      usingDocumentationJs (JObj kvs) = js_undefined)
   \<and> (script kvs ''lint'' = None \<longrightarrow>
      hasNpmLintScript (JObj kvs) = js_undefined)
   \<and> (dependency kvs ''phantomjs'' = None \<and> dependency kvs ''phantomjs-prebuilt'' = None \<longrightarrow>
      shouldUsePhantomjsPrebuilt (JObj kvs) = js_undefined)
   \<and> (dependency kvs ''karma-phantomjs-launcher'' = None \<longrightarrow>
      shouldUsePhantomjsLauncher1 sv (JObj kvs) = js_undefined)
   \<and> (dependency kvs ''husky'' = None \<or> script kvs ''prepush'' = None \<longrightarrow>
      shouldUsePrepushHooks (JObj kvs) = js_undefined)
   \<and> (dependency kvs ''require-polyfill'' = None \<longrightarrow>
      shouldUsePublicRequirePolyfill (JObj kvs) = js_true)
   \<and> (dependency kvs ''eslint-config-gfp'' = None \<longrightarrow>
      shouldUseEslintConfigGfp300 sv (JObj kvs) = js_undefined)
   \<and> (script kvs ''postinstall'' = None \<longrightarrow>
      shouldRunGfpDoctorPostInstall (JObj kvs) = js_undefined)
   \<and> (dependency kvs ''karma'' = None \<longrightarrow>
      shouldUseKarma170 sv (JObj kvs) = js_undefined)
   \<and> (dependency kvs ''karma-coverage'' = None \<longrightarrow>
      shouldUseKarmaCoverage110 sv (JObj kvs) = js_undefined)
   \<and> (dependency kvs ''karma-jasmine'' = None \<longrightarrow>
      shouldUseKarmaJasmine110 sv (JObj kvs) = js_undefined)"
  unfolding object_forms by (simp add: declared_def)

theorem absent_entry_never_fails_witness:
  "dependency [(''devDependencies'', JObj [])] ''gfp-eslint-config'' = None
   \<and> has_section [(''devDependencies'', JObj [])] ''devDependencies''
   \<and> script [(''devDependencies'', JObj [])] ''lint'' = None
   \<and> notUsingStashGfpEslintConfig (JObj [(''devDependencies'', JObj [])]) = js_true
   \<and> missingEslintConfigGfp (JObj [(''devDependencies'', JObj [])]) = js_undefined
   \<and> notUsingStashAngularModuleNoDeps (JObj [(''devDependencies'', JObj [])]) = js_true
   \<and> usingDocumentationJs (JObj [(''devDependencies'', JObj [])]) = js_undefined
   \<and> hasNpmLintScript (JObj [(''devDependencies'', JObj [])]) = js_undefined
   \<and> shouldUsePhantomjsPrebuilt (JObj [(''devDependencies'', JObj [])]) = js_undefined
   \<and> shouldUsePhantomjsLauncher1 semver_spec (JObj [(''devDependencies'', JObj [])]) = js_undefined
   \<and> shouldUsePrepushHooks (JObj [(''devDependencies'', JObj [])]) = js_undefined
   \<and> shouldUsePublicRequirePolyfill (JObj [(''devDependencies'', JObj [])]) = js_true
   \<and> shouldUseEslintConfigGfp300 semver_spec (JObj [(''devDependencies'', JObj [])]) = js_undefined
   \<and> shouldRunGfpDoctorPostInstall (JObj [(''devDependencies'', JObj [])]) = js_undefined
   \<and> shouldUseKarma170 semver_spec (JObj [(''devDependencies'', JObj [])]) = js_undefined
   \<and> shouldUseKarmaCoverage110 semver_spec (JObj [(''devDependencies'', JObj [])]) = js_undefined
   \<and> shouldUseKarmaJasmine110 semver_spec (JObj [(''devDependencies'', JObj [])]) = js_undefined"
  using absent_entry_never_fails [of "[(''devDependencies'', JObj [])]" semver_spec]
  by (simp add: entry_def has_section_def)

text \<open>
  C4. When there is no manifest at the path, the exported function marks the rule set as
  skipped and returns it without invoking a predicate: for every store (whatever rules and
  predicates the module's object holds) the call returns the module's object, the object
  has \<open>skipped = True\<close>, no rule carries an outcome, and no predicate was invoked.
\<close>

theorem examine_missing_manifest:
  "fst (examine Missing st) = Inr rulesConf_addr
   \<and> skipped (fst (snd (examine Missing st)) rulesConf_addr) = True
   \<and> snd (snd (examine Missing st)) = []
   \<and> map passed (rules (fst (snd (examine Missing st)) rulesConf_addr)) =
       replicate (length (rules (st rulesConf_addr))) None"
  by (simp add: examine_def addSkipped_def map_replicate_const o_def)

text \<open>
  C5. \<^verbatim>\<open>shouldUsePublicRequirePolyfill\<close> is default-permissive: on every document in
  which the dependency \<^verbatim>\<open>require-polyfill\<close> is absent (also when \<^verbatim>\<open>devDependencies\<close> is
  absent) it returns \<^verbatim>\<open>true\<close>; when the dependency is present with a version string, it
  returns \<^verbatim>\<open>false\<close> if the string contains \<^verbatim>\<open>ssh://\<close> and \<^verbatim>\<open>true\<close> if it does not.
  On the document \<^verbatim>\<open>{}\<close> it returns \<^verbatim>\<open>true\<close>.
\<close>

theorem shouldUsePublicRequirePolyfill_default_permissive:
  "(dependency kvs ''require-polyfill'' = None \<longrightarrow>
      shouldUsePublicRequirePolyfill (JObj kvs) = js_true)
   \<and> (dependency kvs ''require-polyfill'' = Some (JStr v) \<longrightarrow>
      shouldUsePublicRequirePolyfill (JObj kvs) = Inr (JBool (\<not> occurs_in ''ssh://'' v)))
   \<and> shouldUsePublicRequirePolyfill (JObj []) = js_true"
proof -
  have "\<not> occurs_in ''ssh://'' []"
    by (simp add: str_includes_iff [symmetric])
  then show ?thesis
    unfolding shouldUsePublicRequirePolyfill_object
    by (auto simp: js_if_def and_then_def str_includes_iff entry_def)
qed

theorem shouldUsePublicRequirePolyfill_default_permissive_witness:
  "dependency [] ''require-polyfill'' = None
   \<and> shouldUsePublicRequirePolyfill (JObj []) = js_true
   \<and> dependency [(''devDependencies'', JObj [(''require-polyfill'', JStr ''git+ssh://git@host/rp.git'')])]
        ''require-polyfill'' = Some (JStr ''git+ssh://git@host/rp.git'')
   \<and> shouldUsePublicRequirePolyfill
        (JObj [(''devDependencies'', JObj [(''require-polyfill'', JStr ''git+ssh://git@host/rp.git'')])])
       = js_false
   \<and> shouldUsePublicRequirePolyfill
        (JObj [(''devDependencies'', JObj [(''require-polyfill'', JStr ''^1.0.3'')])])
       = js_true"
  using shouldUsePublicRequirePolyfill_default_permissive [of "[]" "[]"]
    shouldUsePublicRequirePolyfill_default_permissive
      [of "[(''devDependencies'', JObj [(''require-polyfill'', JStr ''git+ssh://git@host/rp.git'')])]"
          "''git+ssh://git@host/rp.git''"]
    shouldUsePublicRequirePolyfill_default_permissive
      [of "[(''devDependencies'', JObj [(''require-polyfill'', JStr ''^1.0.3'')])]" "''^1.0.3''"]
  by (simp add: entry_def str_includes_iff [symmetric])

text \<open>
  C6, as stated, fails: on \<^verbatim>\<open>{devDependencies: {"phantomjs": ""}}\<close> the mapping contains
  the key \<^verbatim>\<open>phantomjs\<close>, and the predicate returns \<^verbatim>\<open>undefined\<close>, not an explicit
  fail, because the guard tests the declared value, and the empty string is falsy.
\<close>

theorem shouldUsePhantomjsPrebuilt_empty_version:
  "dependency [(''devDependencies'', JObj [(''phantomjs'', JStr [])])] ''phantomjs'' = Some (JStr [])
   \<and> shouldUsePhantomjsPrebuilt (JObj [(''devDependencies'', JObj [(''phantomjs'', JStr [])])])
       \<noteq> js_false
   \<and> shouldUsePhantomjsPrebuilt (JObj [(''devDependencies'', JObj [(''phantomjs'', JStr [])])])
       = js_undefined"
  by (simp add: shouldUsePhantomjsPrebuilt_object entry_def declared_def)

text \<open>
  C6, amended. \<^verbatim>\<open>shouldUsePhantomjsPrebuilt\<close> is a three-way check on declared values:
  on every document, if \<^verbatim>\<open>devDependencies\<close> has \<^verbatim>\<open>phantomjs\<close> with a truthy value it
  returns an explicit fail; otherwise, if it has \<^verbatim>\<open>phantomjs-prebuilt\<close> with a truthy value,
  an explicit pass; in every other case (also without \<^verbatim>\<open>devDependencies\<close>)
  \<^verbatim>\<open>undefined\<close>. On \<^verbatim>\<open>{devDependencies: {"phantomjs": "1.0.0"}}\<close> it returns an
  explicit fail.
\<close>

theorem shouldUsePhantomjsPrebuilt_three_way:
  "shouldUsePhantomjsPrebuilt (JObj kvs) =
     (if declared (dependency kvs ''phantomjs'') then js_false
      else if declared (dependency kvs ''phantomjs-prebuilt'') then js_true
      else js_undefined)
   \<and> shouldUsePhantomjsPrebuilt scenario_C = js_false"
  by (simp add: shouldUsePhantomjsPrebuilt_object scenario_C_def entry_def declared_def)

text \<open>
  C7. \<^verbatim>\<open>shouldUseEslintConfigGfp300\<close> hands the floor version \<^verbatim>\<open>2.9.9\<close> and the declared
  range of \<^verbatim>\<open>eslint-config-gfp\<close> to the comparator's \<^verbatim>\<open>ltr\<close> and returns its answer;
  when the dependency is absent it returns \<^verbatim>\<open>undefined\<close>. With the comparator of the
  description, on \<^verbatim>\<open>{devDependencies: {"eslint-config-gfp": "^3.0.0"}}\<close> the rules
  "using eslint-config-gfp" and "should use eslint-config-gfp 3.0.0 and up" both pass, and
  on \<^verbatim>\<open>{devDependencies: {"eslint-config-gfp": "^2.0.0"}}\<close> the second one fails.
\<close>

theorem shouldUseEslintConfigGfp300_floor:
  "(dependency kvs ''eslint-config-gfp'' = None \<longrightarrow>
      shouldUseEslintConfigGfp300 sv (JObj kvs) = js_undefined)
   \<and> (dependency kvs ''eslint-config-gfp'' = Some v \<and> truthy v \<longrightarrow>
      shouldUseEslintConfigGfp300 sv (JObj kvs) = js_bool (ltr sv ''2.9.9'' v))
   \<and> desc (rules (rulesConf semver_spec) ! 1) = ''using eslint-config-gfp''
   \<and> fn (rules (rulesConf semver_spec) ! 1) scenario_A = js_true
   \<and> desc (rules (rulesConf semver_spec) ! 9) = ''should use eslint-config-gfp 3.0.0 and up''
   \<and> fn (rules (rulesConf semver_spec) ! 9) scenario_A = js_true
   \<and> fn (rules (rulesConf semver_spec) ! 9) scenario_B = js_false"
  unfolding rule_2 rule_10
  by (simp add: mk_rule_def scenario_A_def scenario_B_def shouldUseEslintConfigGfp300_object
        missingEslintConfigGfp_object entry_def declared_def ltr_spec_A ltr_spec_B
        js_bool_def and_then_def)

theorem shouldUseEslintConfigGfp300_floor_witness:
  "dependency [(''devDependencies'', JObj [(''eslint-config-gfp'', JStr ''^3.0.0'')])]
     ''eslint-config-gfp'' = Some (JStr ''^3.0.0'')
   \<and> truthy (JStr ''^3.0.0'')
   \<and> shouldUseEslintConfigGfp300 semver_spec
        (JObj [(''devDependencies'', JObj [(''eslint-config-gfp'', JStr ''^3.0.0'')])]) = js_true
   \<and> dependency [] ''eslint-config-gfp'' = None
   \<and> shouldUseEslintConfigGfp300 semver_spec (JObj []) = js_undefined"
  using shouldUseEslintConfigGfp300_floor
      [of "[(''devDependencies'', JObj [(''eslint-config-gfp'', JStr ''^3.0.0'')])]" semver_spec
          "JStr ''^3.0.0''"]
    shouldUseEslintConfigGfp300_floor [of "[]" semver_spec]
  by (simp add: entry_def ltr_spec_A js_bool_def and_then_def)

text \<open>
  C8. \<^verbatim>\<open>shouldUsePrepushHooks\<close> returns \<^verbatim>\<open>true\<close> only when both the \<^verbatim>\<open>husky\<close>
  dependency and a \<^verbatim>\<open>scripts.prepush\<close> entry are there (it does so exactly when both
  are declared with truthy values); whenever one of the two is absent it returns
  \<^verbatim>\<open>undefined\<close>; and it never returns \<^verbatim>\<open>false\<close>.
\<close>

theorem shouldUsePrepushHooks_both:
  "shouldUsePrepushHooks (JObj kvs) =
     (if declared (dependency kvs ''husky'') \<and> declared (script kvs ''prepush'')
      then js_true else js_undefined)
   \<and> (shouldUsePrepushHooks (JObj kvs) = js_true \<longrightarrow>
        dependency kvs ''husky'' \<noteq> None \<and> script kvs ''prepush'' \<noteq> None)
   \<and> (dependency kvs ''husky'' = None \<or> script kvs ''prepush'' = None \<longrightarrow>
        shouldUsePrepushHooks (JObj kvs) = js_undefined)
   \<and> shouldUsePrepushHooks (JObj kvs) \<noteq> js_false"
  unfolding shouldUsePrepushHooks_object by (auto simp: declared_def split: option.splits)

theorem shouldUsePrepushHooks_both_witness:
  "shouldUsePrepushHooks
     (JObj [(''devDependencies'', JObj [(''husky'', JStr ''^0.14.3'')]),
            (''scripts'', JObj [(''prepush'', JStr ''npm run lint'')])]) = js_true
   \<and> dependency [(''devDependencies'', JObj [(''husky'', JStr ''^0.14.3'')]),
                  (''scripts'', JObj [(''prepush'', JStr ''npm run lint'')])] ''husky'' \<noteq> None
   \<and> script [(''devDependencies'', JObj [(''husky'', JStr ''^0.14.3'')]),
              (''scripts'', JObj [(''prepush'', JStr ''npm run lint'')])] ''prepush'' \<noteq> None
   \<and> script [(''devDependencies'', JObj [(''husky'', JStr ''^0.14.3'')])] ''prepush'' = None
   \<and> shouldUsePrepushHooks (JObj [(''devDependencies'', JObj [(''husky'', JStr ''^0.14.3'')])])
       = js_undefined"
  using shouldUsePrepushHooks_both
      [of "[(''devDependencies'', JObj [(''husky'', JStr ''^0.14.3'')]),
            (''scripts'', JObj [(''prepush'', JStr ''npm run lint'')])]"]
    shouldUsePrepushHooks_both [of "[(''devDependencies'', JObj [(''husky'', JStr ''^0.14.3'')])]"]
  by (simp add: entry_def declared_def)

text \<open>
  C9, as stated, fails: a run does not build a fresh report. A first run on
  \<^verbatim>\<open>{devDependencies: {"phantomjs": "1.0.0"}}\<close> and a second run on
  \<^verbatim>\<open>{devDependencies: {"phantomjs-prebuilt": "2.1.16"}}\<close> return the same object, the one
  the module created when it was loaded. After the first run the object holds an explicit
  fail for the sixth rule; after the second run the same object holds an explicit pass
  there, so the report handed out by the first run has changed under its holder.
\<close>

theorem examine_overwrites_earlier_report:
  "fst (examine (Parsed scenario_C) (module_store semver_spec)) = Inr rulesConf_addr
   \<and> fst (examine (Parsed prebuilt_document) store_after_C) = Inr rulesConf_addr
   \<and> map passed (rules (store_after_C rulesConf_addr)) =
       map Some [JBool True, JUndefined, JBool True, JUndefined, JUndefined, JBool False,
         JUndefined, JUndefined, JBool True, JUndefined, JUndefined, JUndefined, JUndefined,
         JUndefined]
   \<and> map passed (rules (fst (snd (examine (Parsed prebuilt_document) store_after_C))
                          rulesConf_addr)) =
       map Some [JBool True, JUndefined, JBool True, JUndefined, JUndefined, JBool True,
         JUndefined, JUndefined, JBool True, JUndefined, JUndefined, JUndefined, JUndefined,
         JUndefined]"
proof -
  have first: "map (\<lambda>r. fn r scenario_C) (rules (module_store semver_spec rulesConf_addr)) =
     map Inr [JBool True, JUndefined, JBool True, JUndefined, JUndefined, JBool False,
       JUndefined, JUndefined, JBool True, JUndefined, JUndefined, JUndefined, JUndefined,
       JUndefined]"
    using registry_on_scenario_C [of semver_spec] by (simp add: module_store_def)
  have "map (\<lambda>r. fn r prebuilt_document) (rules (store_after_C rulesConf_addr)) =
     map (\<lambda>r. fn r prebuilt_document) (rules (module_store semver_spec rulesConf_addr))"
    unfolding store_after_C_def by (rule examine_keeps_predicates)
  then have second: "map (\<lambda>r. fn r prebuilt_document) (rules (store_after_C rulesConf_addr)) =
     map Inr [JBool True, JUndefined, JBool True, JUndefined, JUndefined, JBool True,
       JUndefined, JUndefined, JBool True, JUndefined, JUndefined, JUndefined, JUndefined,
       JUndefined]"
    using registry_on_prebuilt_document [of semver_spec] by (simp add: module_store_def)
  show ?thesis
    using examine_parsed_returns [where st = "module_store semver_spec", OF first]
      examine_parsed_returns [where st = store_after_C, OF second]
    by (simp add: store_after_C_def [symmetric])
qed

text \<open>
  C9, amended. Every run that returns, returns the module's one rule set object, whose
  \<open>rules\<close> it has overwritten. The outcomes themselves do not leak: what a run on a parsed
  document returns, the predicates it invokes and, when it returns normally, the rules with
  their outcomes that it leaves in the report are the same whether or not another run, on
  any manifest, came before it. A run on a parsed document leaves the \<open>skipped\<close> flag of
  the object as it finds it.
\<close>

theorem examine_shares_report:
  "(case fst (examine m st) of Inr a \<Rightarrow> a = rulesConf_addr | Inl e \<Rightarrow> True)
   \<and> fst (examine (Parsed json) (fst (snd (examine m st)))) = fst (examine (Parsed json) st)
   \<and> snd (snd (examine (Parsed json) (fst (snd (examine m st))))) =
       snd (snd (examine (Parsed json) st))
   \<and> (fst (examine (Parsed json) st) = Inr rulesConf_addr \<longrightarrow>
        rules (fst (snd (examine (Parsed json) (fst (snd (examine m st))))) rulesConf_addr) =
        rules (fst (snd (examine (Parsed json) st)) rulesConf_addr))
   \<and> skipped (fst (snd (examine (Parsed json) st)) rulesConf_addr) =
       skipped (st rulesConf_addr)"
proof -
  let ?st1 = "fst (snd (examine m st))"
  have same: "processRules (?st1 rulesConf_addr) json = processRules (st rulesConf_addr) json"
    unfolding processRules_def
    by (rule processRules_loop_templates) (rule examine_keeps_templates)
  have first: "case fst (examine m st) of Inr a \<Rightarrow> a = rulesConf_addr | Inl e \<Rightarrow> True"
    by (cases m) (auto simp: examine_def addSkipped_def split: sum.splits prod.splits)
  show ?thesis
    using first
    by (auto simp: examine_def [of "Parsed json"] same split: sum.splits prod.splits)
qed

theorem examine_shares_report_witness:
  "fst (examine (Parsed prebuilt_document) (module_store semver_spec)) = Inr rulesConf_addr
   \<and> rules (fst (snd (examine (Parsed prebuilt_document) store_after_C)) rulesConf_addr) =
       rules (fst (snd (examine (Parsed prebuilt_document) (module_store semver_spec)))
                rulesConf_addr)"
proof -
  have "map (\<lambda>r. fn r prebuilt_document) (rules (module_store semver_spec rulesConf_addr)) =
     map Inr [JBool True, JUndefined, JBool True, JUndefined, JUndefined, JBool True,
       JUndefined, JUndefined, JBool True, JUndefined, JUndefined, JUndefined, JUndefined,
       JUndefined]"
    using registry_on_prebuilt_document [of semver_spec] by (simp add: module_store_def)
  then have "fst (examine (Parsed prebuilt_document) (module_store semver_spec)) =
      Inr rulesConf_addr"
    by (rule examine_parsed_returns(1))
  then show ?thesis
    using examine_shares_report
      [where m = "Parsed scenario_C" and st = "module_store semver_spec"
         and json = prebuilt_document]
    by (simp add: store_after_C_def)
qed

text \<open>
  C10. Every predicate tests an entry by the truthiness of its declared value, not by the
  presence of the key: for each of the fourteen predicates, a document in which a key of
  \<^verbatim>\<open>devDependencies\<close> (or of \<^verbatim>\<open>scripts\<close>) is declared with a falsy value gives the same
  result as the document in which that key is deleted. So \<^verbatim>\<open>missingEslintConfigGfp\<close> on
  \<^verbatim>\<open>{devDependencies: {"eslint-config-gfp": ""}}\<close> and \<^verbatim>\<open>hasNpmLintScript\<close> on
  \<^verbatim>\<open>{scripts: {"lint": ""}}\<close> return \<^verbatim>\<open>undefined\<close>.
\<close>

theorem falsy_entry_is_absent:
  "(\<not> truthy v \<longrightarrow>
      map (\<lambda>r. fn r (JObj (AList.update ''devDependencies'' (JObj (AList.update k v m)) kvs)))
          (rules (rulesConf sv)) =
      map (\<lambda>r. fn r (JObj (AList.update ''devDependencies'' (JObj (AList.delete k m)) kvs)))
          (rules (rulesConf sv)))
   \<and> (\<not> truthy v \<longrightarrow>
      map (\<lambda>r. fn r (JObj (AList.update ''scripts'' (JObj (AList.update k v m)) kvs)))
          (rules (rulesConf sv)) =
      map (\<lambda>r. fn r (JObj (AList.update ''scripts'' (JObj (AList.delete k m)) kvs)))
          (rules (rulesConf sv)))
   \<and> missingEslintConfigGfp
        (JObj [(''devDependencies'', JObj [(''eslint-config-gfp'', JStr [])])]) = js_undefined
   \<and> hasNpmLintScript (JObj [(''scripts'', JObj [(''lint'', JStr [])])]) = js_undefined"
proof (intro conjI impI)
  assume v: "\<not> truthy v"
  show "map (\<lambda>r. fn r (JObj (AList.update ''devDependencies'' (JObj (AList.update k v m)) kvs)))
          (rules (rulesConf sv)) =
        map (\<lambda>r. fn r (JObj (AList.update ''devDependencies'' (JObj (AList.delete k m)) kvs)))
          (rules (rulesConf sv))"
    by (simp add: rulesConf_def mk_rule_def object_forms entry_update has_section_update
          declared_falsy [OF v] falsy_as_absent [OF v])
next
  assume v: "\<not> truthy v"
  show "map (\<lambda>r. fn r (JObj (AList.update ''scripts'' (JObj (AList.update k v m)) kvs)))
          (rules (rulesConf sv)) =
        map (\<lambda>r. fn r (JObj (AList.update ''scripts'' (JObj (AList.delete k m)) kvs)))
          (rules (rulesConf sv))"
    by (simp add: rulesConf_def mk_rule_def object_forms entry_update has_section_update
          declared_falsy [OF v] falsy_as_absent [OF v])
next
  show "missingEslintConfigGfp
        (JObj [(''devDependencies'', JObj [(''eslint-config-gfp'', JStr [])])]) = js_undefined"
    by (simp add: missingEslintConfigGfp_object entry_def declared_def)
next
  show "hasNpmLintScript (JObj [(''scripts'', JObj [(''lint'', JStr [])])]) = js_undefined"
    by (simp add: hasNpmLintScript_object entry_def declared_def)
qed

theorem falsy_entry_is_absent_witness:
  "\<not> truthy (JStr [])
   \<and> map (\<lambda>r. fn r (JObj [(''devDependencies'', JObj [(''eslint-config-gfp'', JStr [])])]))
          (rules (rulesConf semver_spec)) =
       map (\<lambda>r. fn r (JObj [(''devDependencies'', JObj [])])) (rules (rulesConf semver_spec))
   \<and> map (\<lambda>r. fn r (JObj [(''scripts'', JObj [(''lint'', JStr [])])]))
          (rules (rulesConf semver_spec)) =
       map (\<lambda>r. fn r (JObj [(''scripts'', JObj [])])) (rules (rulesConf semver_spec))"
  using falsy_entry_is_absent
      [where v = "JStr []" and k = "''eslint-config-gfp''" and m = "[]" and kvs = "[]"
         and sv = semver_spec]
    falsy_entry_is_absent
      [where v = "JStr []" and k = "''lint''" and m = "[]" and kvs = "[]" and sv = semver_spec]
  by simp

end
